theory Spec2Isabelle
  imports Complex_Main
begin

section \<open>The wallet service (src/wallet/wallet.service.ts)\<close>

text \<open>
  A shallow embedding of the class \<^verbatim>\<open>WalletService\<close>. The three private maps of the
  class are the fields of one state record, every public method takes the state and
  returns its result together with the state it leaves behind. An exception is a
  value \<open>Inl e\<close>; the state is returned with it, since a JavaScript \<^verbatim>\<open>throw\<close> undoes
  nothing that was written before it.

  The values that \<^verbatim>\<open>uuid()\<close> and \<^verbatim>\<open>new Date()\<close> yield are inputs of the model
  (record \<open>Env\<close>); the logger calls have no effect on the state and are left out.
\<close>

subsection \<open>JavaScript numbers\<close>

text \<open>
  A JavaScript \<^verbatim>\<open>number\<close> is an IEEE-754 binary64 value: a finite value (a rational
  \<open>m * 2 ^ k\<close> with \<open>\<bar>m\<bar> < 2 ^ 53\<close> and \<open>- 1074 \<le> k \<le> 971\<close>; \<open>Finite 0\<close> is \<open>+0\<close>), the
  negative zero, the two infinities or \<open>NaN\<close>. The arithmetic operators compute the
  exact result and round it to the nearest such value, ties to the even significand
  (\<open>round64\<close>); a result of magnitude \<open>2 ^ 1024\<close> or more after rounding is an infinity.
  A number literal, or a number in a JSON body, with the decimal value \<open>q\<close> is
  \<open>round64 q\<close>.
\<close>

datatype number = Finite rat | NegZero | PosInfinity | NegInfinity | NaN

text \<open>The number of binary digits of a positive integer.\<close>

function bitLength :: "int \<Rightarrow> int" where
  "bitLength n = (if n \<le> 0 then 0 else 1 + bitLength (n div 2))"
  by pat_completeness auto
termination
  by (relation "measure nat") auto

declare bitLength.simps [simp del]

definition pow2 :: "int \<Rightarrow> rat" where
  "pow2 i = (if 0 \<le> i then 2 ^ nat i else 1 / 2 ^ nat (- i))"

text \<open>\<open>ilog2 a\<close> is the integer \<open>e\<close> with \<open>2 ^ e \<le> a < 2 ^ (e + 1)\<close>, for \<open>a > 0\<close>.\<close>

definition ilog2 :: "rat \<Rightarrow> int" where
  "ilog2 a = (if 1 \<le> a then bitLength \<lfloor>a\<rfloor> - 1 else - bitLength (\<lceil>1 / a\<rceil> - 1))"

definition roundHalfEven :: "rat \<Rightarrow> int" where
  "roundHalfEven x =
     (let f = \<lfloor>x\<rfloor>; d = x - of_int f
      in if d < 1 / 2 then f else if 1 / 2 < d then f + 1 else if even f then f else f + 1)"

text \<open>Rounding \<open>q \<noteq> 0\<close> to a multiple of \<open>2 ^ k\<close>, with overflow and underflow.\<close>

definition roundAt :: "int \<Rightarrow> rat \<Rightarrow> number" where
  "roundAt k q =
     (let m = roundHalfEven (\<bar>q\<bar> / pow2 k);
          r = of_int m * pow2 k
      in if pow2 1024 \<le> r then (if q < 0 then NegInfinity else PosInfinity)
         else if m = 0 then (if q < 0 then NegZero else Finite 0)
         else Finite (if q < 0 then - r else r))"

text \<open>The spacing of the binary64 values around \<open>q\<close> is \<open>2 ^ (e - 52)\<close> where
  \<open>2 ^ e \<le> \<bar>q\<bar> < 2 ^ (e + 1)\<close>, and \<open>2 ^ (- 1074)\<close> for the subnormal values.\<close>

definition round64 :: "rat \<Rightarrow> number" where
  "round64 q =
     (if q = 0 then Finite 0 else roundAt (max (ilog2 \<bar>q\<bar> - 52) (- 1074)) q)"

definition isNaN :: "number \<Rightarrow> bool" where
  "isNaN x \<longleftrightarrow> x = NaN"

definition isInf :: "number \<Rightarrow> bool" where
  "isInf x \<longleftrightarrow> x = PosInfinity \<or> x = NegInfinity"

definition isZero :: "number \<Rightarrow> bool" where
  "isZero x \<longleftrightarrow> x = Finite 0 \<or> x = NegZero"

fun signBit :: "number \<Rightarrow> bool" where
  "signBit (Finite q) = (q < 0)"
| "signBit NegZero = True"
| "signBit PosInfinity = False"
| "signBit NegInfinity = True"
| "signBit NaN = False"

text \<open>The value of a finite number.\<close>

fun valof :: "number \<Rightarrow> rat" where
  "valof (Finite q) = q"
| "valof _ = 0"

definition signedZero :: "bool \<Rightarrow> number" where
  "signedZero s = (if s then NegZero else Finite 0)"

definition signedInf :: "bool \<Rightarrow> number" where
  "signedInf s = (if s then NegInfinity else PosInfinity)"

fun negate :: "number \<Rightarrow> number" where
  "negate (Finite q) = (if q = 0 then NegZero else Finite (- q))"
| "negate NegZero = Finite 0"
| "negate PosInfinity = NegInfinity"
| "negate NegInfinity = PosInfinity"
| "negate NaN = NaN"

text \<open>The operators \<^verbatim>\<open>*\<close>, \<^verbatim>\<open>+\<close>, \<^verbatim>\<open>/\<close>, \<^verbatim>\<open><\<close> and \<^verbatim>\<open><=\<close> of JavaScript on numbers.\<close>

instantiation number :: "{times, plus, divide, ord}"
begin

definition times_number :: "number \<Rightarrow> number \<Rightarrow> number" where
  "times_number x y =
     (if isNaN x \<or> isNaN y then NaN
      else if isInf x \<or> isInf y
        then (if isZero x \<or> isZero y then NaN else signedInf (signBit x \<noteq> signBit y))
      else if isZero x \<or> isZero y then signedZero (signBit x \<noteq> signBit y)
      else round64 (valof x * valof y))"

definition plus_number :: "number \<Rightarrow> number \<Rightarrow> number" where
  "plus_number x y =
     (if isNaN x \<or> isNaN y then NaN
      else if isInf x then (if isInf y \<and> x \<noteq> y then NaN else x)
      else if isInf y then y
      else if valof x + valof y = 0
        then (if x = NegZero \<and> y = NegZero then NegZero else Finite 0)
      else round64 (valof x + valof y))"

definition divide_number :: "number \<Rightarrow> number \<Rightarrow> number" where
  "divide_number x y =
     (if isNaN x \<or> isNaN y then NaN
      else if isInf x then (if isInf y then NaN else signedInf (signBit x \<noteq> signBit y))
      else if isInf y then signedZero (signBit x \<noteq> signBit y)
      else if isZero y then (if isZero x then NaN else signedInf (signBit x \<noteq> signBit y))
      else if isZero x then signedZero (signBit x \<noteq> signBit y)
      else round64 (valof x / valof y))"

definition less_number :: "number \<Rightarrow> number \<Rightarrow> bool" where
  "less_number x y \<longleftrightarrow>
     (if isNaN x \<or> isNaN y then False
      else if x = PosInfinity \<or> y = NegInfinity then False
      else if x = NegInfinity \<or> y = PosInfinity then True
      else valof x < valof y)"

definition less_eq_number :: "number \<Rightarrow> number \<Rightarrow> bool" where
  "less_eq_number x y \<longleftrightarrow>
     (if isNaN x \<or> isNaN y then False
      else if x = NegInfinity \<or> y = PosInfinity then True
      else if x = PosInfinity \<or> y = NegInfinity then False
      else valof x \<le> valof y)"

instance ..

end

text \<open>The operator \<^verbatim>\<open>-\<close>: \<open>x - y\<close> is \<open>x + (- y)\<close>. The type is made an instance of
  \<open>inverse\<close> for the notation \<open>x / y\<close> only.\<close>

instantiation number :: "{minus, inverse}"
begin

definition minus_number :: "number \<Rightarrow> number \<Rightarrow> number" where
  "minus_number x y = x + negate y"

definition inverse_number :: "number \<Rightarrow> number" where
  "inverse_number x = Finite 1 div x"

instance ..

end

text \<open>What \<^verbatim>\<open>@IsNumber()\<close> and \<^verbatim>\<open>@IsPositive()\<close> of \<^verbatim>\<open>FundWalletDto\<close> and
  \<^verbatim>\<open>TransferFundsDto\<close> let through: a finite binary64 value above zero.\<close>

definition validAmount :: "number \<Rightarrow> bool" where
  "validAmount a = (case a of Finite q \<Rightarrow> 0 < q \<and> round64 q = Finite q | _ \<Rightarrow> False)"

text \<open>\<^verbatim>\<open>Number.isInteger\<close>.\<close>

definition isInteger :: "number \<Rightarrow> bool" where
  "isInteger x =
     (case x of Finite q \<Rightarrow> of_int \<lfloor>q\<rfloor> = q | NegZero \<Rightarrow> True | _ \<Rightarrow> False)"

subsection \<open>Data model (interfaces/wallet.interface.ts, interfaces/transaction.interface.ts)\<close>

datatype Currency = USD | NGN | GBP

datatype TransactionAction = FUND | TRANSFER_OUT | TRANSFER_IN

text \<open>Interface \<^verbatim>\<open>Wallet\<close>; its field \<^verbatim>\<open>id\<close> is \<open>idW\<close> here.\<close>

record Wallet =
  idW :: string
  currency :: Currency
  balance :: number

text \<open>Interface \<^verbatim>\<open>Transaction\<close>; its field \<^verbatim>\<open>id\<close> is \<open>idT\<close> here, a \<^verbatim>\<open>Date\<close> is a
  number of milliseconds, an optional field is an \<open>option\<close>.\<close>

record Transaction =
  idT :: string
  walletId :: string
  action :: TransactionAction
  amount :: number
  timestamp :: nat
  counterpartyWalletId :: "string option"
  transferGroupId :: "string option"

text \<open>
  The response bodies, typed \<^verbatim>\<open>any\<close> in the idempotency store. \<open>FundResult m w\<close> is the
  flat object \<^verbatim>\<open>{ message, id, currency, balance }\<close> that \<^verbatim>\<open>fundWallet\<close> builds by
  spreading the wallet; \<open>TransferResult m s r\<close> is \<^verbatim>\<open>{ message, sender, receiver }\<close>.
\<close>

datatype Payload =
    FundResult string Wallet
  | TransferResult string Wallet Wallet

record IdempotentResponse =
  body :: Payload

text \<open>\<^verbatim>\<open>WalletDetailsResponse\<close>: the wallet fields and \<^verbatim>\<open>transactionHistory\<close>.\<close>

type_synonym WalletDetailsResponse = "Wallet \<times> Transaction list"

text \<open>
  The three exception classes of \<^verbatim>\<open>@nestjs/common\<close> that the service throws, each with
  its message; \<open>TypeError\<close> is the runtime error of calling \<^verbatim>\<open>.push\<close> on \<^verbatim>\<open>undefined\<close>.
\<close>

datatype ExceptionClass = NotFoundException | BadRequestException | ConflictException

datatype Exception = HttpException ExceptionClass string | TypeError

record WalletService =
  wallets :: "string \<rightharpoonup> Wallet"
  transactionHistory :: "string \<rightharpoonup> Transaction list"
  idempotentStore :: "string \<rightharpoonup> IdempotentResponse"

text \<open>The values generated during one call: the successive results of \<^verbatim>\<open>uuid()\<close> and of
  \<^verbatim>\<open>new Date()\<close>, in the order of the calls.\<close>

record Env =
  uuid1 :: string
  uuid2 :: string
  uuid3 :: string
  date1 :: nat
  date2 :: nat

definition initial :: WalletService where
  "initial = \<lparr>wallets = Map.empty, transactionHistory = Map.empty,
              idempotentStore = Map.empty\<rparr>"

subsection \<open>The idempotency helpers\<close>

text \<open>
  \<^verbatim>\<open>if (idempotencyKey && this.idempotentStore.has(idempotencyKey))\<close>: the key is
  \<^verbatim>\<open>undefined\<close> (\<open>None\<close>) or a string, and the empty string is falsy.
\<close>

definition checkIdempotency :: "string option \<Rightarrow> WalletService \<Rightarrow> Payload option" where
  "checkIdempotency idempotencyKey s =
     (case idempotencyKey of
        None \<Rightarrow> None
      | Some k \<Rightarrow>
          if k \<noteq> [] \<and> k \<in> dom (idempotentStore s)
          then map_option body (idempotentStore s k)
          else None)"

definition storeIdempotencyResult ::
    "string option \<Rightarrow> Payload \<Rightarrow> WalletService \<Rightarrow> WalletService" where
  "storeIdempotencyResult idempotencyKey result s =
     (case idempotencyKey of
        None \<Rightarrow> s
      | Some k \<Rightarrow>
          if k \<noteq> []
          then s\<lparr>idempotentStore := (idempotentStore s)(k \<mapsto> \<lparr>body = result\<rparr>)\<rparr>
          else s)"

subsection \<open>The public methods\<close>

text \<open>\<^verbatim>\<open>createWallet\<close>: \<^verbatim>\<open>createWalletDto.currency || Currency.USD\<close>; every member of the
  enumeration is a non-empty string, hence truthy.\<close>

definition createWallet ::
    "Env \<Rightarrow> Currency option \<Rightarrow> WalletService \<Rightarrow> Wallet \<times> WalletService" where
  "createWallet env dto_currency s =
     (let newWallet = \<lparr>idW = uuid1 env,
                       currency = (case dto_currency of None \<Rightarrow> USD | Some c \<Rightarrow> c),
                       balance = Finite 0\<rparr>
      in (newWallet,
          s\<lparr>wallets := (wallets s)(idW newWallet \<mapsto> newWallet),
            transactionHistory := (transactionHistory s)(idW newWallet \<mapsto> [])\<rparr>))"

definition fundWallet ::
    "Env \<Rightarrow> string \<Rightarrow> number \<Rightarrow> string option \<Rightarrow> WalletService
       \<Rightarrow> (Exception + Payload) \<times> WalletService" where
  "fundWallet env wId amnt idempotencyKey s =
     (case checkIdempotency idempotencyKey s of
        Some cachedResult \<Rightarrow> (Inr cachedResult, s)
      | None \<Rightarrow>
         (case wallets s wId of
            None \<Rightarrow>
              (Inl (HttpException NotFoundException
                      (''Wallet with ID '' @ [CHR 0x22] @ wId @ [CHR 0x22] @ '' not found.'')), s)
          | Some wallet \<Rightarrow>
              let amountInCents = amnt * Finite 100;
                  wallet' = wallet\<lparr>balance := balance wallet + amountInCents\<rparr>;
                  s1 = s\<lparr>wallets := (wallets s)(wId \<mapsto> wallet')\<rparr>;
                  transaction = \<lparr>idT = uuid1 env, walletId = wId, action = FUND,
                                 amount = amnt, timestamp = date1 env,
                                 counterpartyWalletId = None, transferGroupId = None\<rparr>
              in (case transactionHistory s1 wId of
                    None \<Rightarrow> (Inl TypeError, s1)
                  | Some h \<Rightarrow>
                      let s2 = s1\<lparr>transactionHistory :=
                                    (transactionHistory s1)(wId \<mapsto> h @ [transaction])\<rparr>;
                          result = FundResult ''Transaction successful''
                                     (wallet'\<lparr>balance := balance wallet' / Finite 100\<rparr>)
                      in (Inr result, storeIdempotencyResult idempotencyKey result s2))))"

definition transferFunds ::
    "Env \<Rightarrow> string \<Rightarrow> string \<Rightarrow> number \<Rightarrow> string option \<Rightarrow> WalletService
       \<Rightarrow> (Exception + Payload) \<times> WalletService" where
  "transferFunds env senderWalletId receiverWalletId amnt idempotencyKey s =
     (case checkIdempotency idempotencyKey s of
        Some cachedResult \<Rightarrow> (Inr cachedResult, s)
      | None \<Rightarrow>
         if senderWalletId = receiverWalletId
         then (Inl (HttpException ConflictException
                      ''Cannot transfer funds to the same wallet.''), s)
         else
           (case wallets s senderWalletId of
              None \<Rightarrow> (Inl (HttpException NotFoundException ''Sender wallet not found.''), s)
            | Some senderWallet \<Rightarrow>
               (case wallets s receiverWalletId of
                  None \<Rightarrow>
                    (Inl (HttpException NotFoundException ''Receiver wallet not found.''), s)
                | Some receiverWallet \<Rightarrow>
                    if currency senderWallet \<noteq> currency receiverWallet
                    then (Inl (HttpException BadRequestException
                            ''Transfer between different currencies is not supported.''), s)
                    else
                      let senderBalance = balance senderWallet / Finite 100 in
                      if senderBalance < amnt
                      then (Inl (HttpException BadRequestException
                              ''Insufficient balance in sender wallet.''), s)
                      else
                        let amountInCents = amnt * Finite 100;
                            senderWallet' =
                              senderWallet\<lparr>balance := balance senderWallet - amountInCents\<rparr>;
                            receiverWallet' =
                              receiverWallet\<lparr>balance := balance receiverWallet + amountInCents\<rparr>;
                            s1 = s\<lparr>wallets := (wallets s)(senderWalletId \<mapsto> senderWallet',
                                                            receiverWalletId \<mapsto> receiverWallet')\<rparr>;
                            groupId = uuid1 env;
                            senderTx = \<lparr>idT = uuid2 env, walletId = senderWalletId,
                                        action = TRANSFER_OUT, amount = amnt,
                                        timestamp = date1 env,
                                        counterpartyWalletId = Some receiverWalletId,
                                        transferGroupId = Some groupId\<rparr>
                        in (case transactionHistory s1 senderWalletId of
                              None \<Rightarrow> (Inl TypeError, s1)
                            | Some hs \<Rightarrow>
                                let s2 = s1\<lparr>transactionHistory :=
                                             (transactionHistory s1)
                                               (senderWalletId \<mapsto> hs @ [senderTx])\<rparr>;
                                    receiverTx = \<lparr>idT = uuid3 env, walletId = receiverWalletId,
                                                  action = TRANSFER_IN, amount = amnt,
                                                  timestamp = date2 env,
                                                  counterpartyWalletId = Some senderWalletId,
                                                  transferGroupId = Some groupId\<rparr>
                                in (case transactionHistory s2 receiverWalletId of
                                      None \<Rightarrow> (Inl TypeError, s2)
                                    | Some hr \<Rightarrow>
                                        let s3 = s2\<lparr>transactionHistory :=
                                                     (transactionHistory s2)
                                                       (receiverWalletId \<mapsto> hr @ [receiverTx])\<rparr>;
                                            result = TransferResult ''Transaction successful''
                                              (senderWallet'\<lparr>balance := balance senderWallet' / Finite 100\<rparr>)
                                              (receiverWallet'\<lparr>balance :=
                                                                balance receiverWallet' / Finite 100\<rparr>)
                                        in (Inr result,
                                            storeIdempotencyResult idempotencyKey result s3))))))"

text \<open>\<^verbatim>\<open>getWalletDetails\<close> writes nothing; the state is returned as it was.\<close>

definition getWalletDetails ::
    "string \<Rightarrow> WalletService \<Rightarrow> (Exception + WalletDetailsResponse) \<times> WalletService" where
  "getWalletDetails wId s =
     (case wallets s wId of
        None \<Rightarrow>
          (Inl (HttpException NotFoundException
                  (''Wallet with ID '' @ [CHR 0x22] @ wId @ [CHR 0x22] @ '' not found.'')), s)
      | Some wallet \<Rightarrow>
          let history = (case transactionHistory s wId of None \<Rightarrow> [] | Some h \<Rightarrow> h)
          in (Inr (wallet\<lparr>balance := balance wallet / Finite 100\<rparr>, history), s))"

subsection \<open>Reachable states\<close>

text \<open>
  The states the service can be in: it starts with three empty maps, and the controller
  calls the four public methods, in any order, on arguments that have passed the
  \<^verbatim>\<open>ValidationPipe\<close>: the \<^verbatim>\<open>amount\<close> is a finite positive number. The generated
  identifiers are arbitrary. A call that throws still leaves its state behind.
\<close>

inductive reachable :: "WalletService \<Rightarrow> bool" where
  reachable_initial: "reachable initial"
| reachable_create: "reachable s \<Longrightarrow> reachable (snd (createWallet env c s))"
| reachable_fund:
    "reachable s \<Longrightarrow> validAmount a \<Longrightarrow> reachable (snd (fundWallet env wId a key s))"
| reachable_transfer:
    "reachable s \<Longrightarrow> validAmount a \<Longrightarrow>
       reachable (snd (transferFunds env sId rId a key s))"
| reachable_details: "reachable s \<Longrightarrow> reachable (snd (getWalletDetails wId s))"

text \<open>
  What \<^verbatim>\<open>createWallet\<close> and \<^verbatim>\<open>storeIdempotencyResult\<close> establish between the maps: every
  wallet has a history array, and the empty string is never a key of the store.
\<close>

definition consistent :: "WalletService \<Rightarrow> bool" where
  "consistent s \<longleftrightarrow>
     dom (wallets s) \<subseteq> dom (transactionHistory s) \<and> [] \<notin> dom (idempotentStore s)"

subsection \<open>Concrete runs\<close>

text \<open>
  The scenario of the unit tests (wallet.service.spec.ts): wallets \<open>A\<close> and \<open>B\<close> in USD,
  a third wallet \<open>C\<close> in NGN, and \<open>A\<close> funded with 1000.
\<close>

definition envOf :: "string \<Rightarrow> Env" where
  "envOf u = \<lparr>uuid1 = u, uuid2 = u @ ''-out'', uuid3 = u @ ''-in'', date1 = 1, date2 = 2\<rparr>"

definition threeWallets :: WalletService where
  "threeWallets =
     snd (createWallet (envOf ''C'') (Some NGN)
       (snd (createWallet (envOf ''B'') (Some USD)
         (snd (createWallet (envOf ''A'') None initial)))))"

definition fundedA :: WalletService where
  "fundedA = snd (fundWallet (envOf ''f1'') ''A'' (Finite 1000) None threeWallets)"

text \<open>Then 500 moved from \<open>A\<close> to \<open>B\<close> under the token \<open>k1\<close>.\<close>

definition transferred :: WalletService where
  "transferred =
     snd (transferFunds (envOf ''g1'') ''A'' ''B'' (Finite 500) (Some ''k1'') fundedA)"

text \<open>
  A run with amounts of two decimals: \<open>A\<close> is funded with 0.1, then 0.03 and then 0.07
  are moved from \<open>A\<close> to \<open>B\<close>.
\<close>

definition fundedTenCents :: WalletService where
  "fundedTenCents =
     snd (fundWallet (envOf ''f1'') ''A'' (round64 (1 / 10)) None threeWallets)"

definition leftSevenCents :: WalletService where
  "leftSevenCents =
     snd (transferFunds (envOf ''g1'') ''A'' ''B'' (round64 (3 / 100)) None fundedTenCents)"

definition overdrawn :: WalletService where
  "overdrawn =
     snd (transferFunds (envOf ''g2'') ''A'' ''B'' (round64 (7 / 100)) None leftSevenCents)"

text \<open>A run in which \<open>A\<close> is funded with 0.01.\<close>

definition fundedOneCent :: WalletService where
  "fundedOneCent =
     snd (fundWallet (envOf ''f1'') ''A'' (round64 (1 / 100)) None threeWallets)"

section \<open>Auxiliary facts\<close>

subsection \<open>The idempotency gate\<close>

lemma checkIdempotency_None_iff:
  "checkIdempotency key s = None \<longleftrightarrow>
     (case key of None \<Rightarrow> True | Some k \<Rightarrow> k = [] \<or> idempotentStore s k = None)"
  by (auto simp: checkIdempotency_def split: option.splits)

lemma wallets_store [simp]: "wallets (storeIdempotencyResult key r s) = wallets s"
  by (simp add: storeIdempotencyResult_def split: option.splits)

lemma history_store [simp]:
  "transactionHistory (storeIdempotencyResult key r s) = transactionHistory s"
  by (simp add: storeIdempotencyResult_def split: option.splits)

subsection \<open>Every reachable state is consistent\<close>

lemma consistent_create: "consistent s \<Longrightarrow> consistent (snd (createWallet env c s))"
  by (auto simp: consistent_def createWallet_def Let_def)

lemma consistent_fund: "consistent s \<Longrightarrow> consistent (snd (fundWallet env wId a key s))"
  by (auto simp: consistent_def fundWallet_def storeIdempotencyResult_def Let_def
           split: option.splits)

lemma consistent_transfer:
  "consistent s \<Longrightarrow> consistent (snd (transferFunds env sId rId a key s))"
  by (auto simp: consistent_def transferFunds_def storeIdempotencyResult_def Let_def
           split: option.splits)

lemma consistent_details: "consistent s \<Longrightarrow> consistent (snd (getWalletDetails wId s))"
  by (auto simp: getWalletDetails_def Let_def split: option.splits)

lemma reachable_consistent: "reachable s \<Longrightarrow> consistent s"
proof (induction rule: reachable.induct)
  case reachable_initial
  show ?case by (simp add: consistent_def initial_def)
qed (simp_all add: consistent_create consistent_fund consistent_transfer consistent_details)

lemma reachable_has_history:
  "reachable s \<Longrightarrow> wallets s wId = Some w \<Longrightarrow> \<exists>h. transactionHistory s wId = Some h"
  using reachable_consistent [of s] by (auto simp: consistent_def)

subsection \<open>Replaying a call\<close>

lemma fundWallet_success_cached:
  "k \<noteq> [] \<Longrightarrow> fst (fundWallet env wId a (Some k) s) = Inr p \<Longrightarrow>
     checkIdempotency (Some k) (snd (fundWallet env wId a (Some k) s)) = Some p"
  by (auto simp: fundWallet_def checkIdempotency_def storeIdempotencyResult_def Let_def
           split: option.splits if_splits)

lemma transferFunds_success_cached:
  "k \<noteq> [] \<Longrightarrow> fst (transferFunds env sId rId a (Some k) s) = Inr p \<Longrightarrow>
     checkIdempotency (Some k) (snd (transferFunds env sId rId a (Some k) s)) = Some p"
  by (auto simp: transferFunds_def checkIdempotency_def storeIdempotencyResult_def Let_def
           split: option.splits if_splits)

lemma fundWallet_hit:
  "checkIdempotency key s = Some p \<Longrightarrow> fundWallet env wId a key s = (Inr p, s)"
  by (simp add: fundWallet_def)

lemma transferFunds_hit:
  "checkIdempotency key s = Some p \<Longrightarrow> transferFunds env sId rId a key s = (Inr p, s)"
  by (simp add: transferFunds_def)

subsection \<open>The branches of the two mutating methods, one equation each\<close>

lemma fundWallet_not_found:
  "checkIdempotency key s = None \<Longrightarrow> wallets s wId = None \<Longrightarrow>
     fundWallet env wId a key s =
       (Inl (HttpException NotFoundException
               (''Wallet with ID '' @ [CHR 0x22] @ wId @ [CHR 0x22] @ '' not found.'')), s)"
  by (simp add: fundWallet_def)

lemma fundWallet_no_history:
  "checkIdempotency key s = None \<Longrightarrow> wallets s wId = Some w \<Longrightarrow>
   transactionHistory s wId = None \<Longrightarrow>
     fundWallet env wId a key s =
       (Inl TypeError, s\<lparr>wallets := (wallets s)(wId \<mapsto> w\<lparr>balance := balance w + a * Finite 100\<rparr>)\<rparr>)"
  by (simp add: fundWallet_def Let_def)

lemma fundWallet_success:
  "checkIdempotency key s = None \<Longrightarrow> wallets s wId = Some w \<Longrightarrow>
   transactionHistory s wId = Some h \<Longrightarrow>
     fundWallet env wId a key s =
       (Inr (FundResult ''Transaction successful''
               (w\<lparr>balance := (balance w + a * Finite 100) / Finite 100\<rparr>)),
        storeIdempotencyResult key
          (FundResult ''Transaction successful'' (w\<lparr>balance := (balance w + a * Finite 100) / Finite 100\<rparr>))
          (s\<lparr>wallets := (wallets s)(wId \<mapsto> w\<lparr>balance := balance w + a * Finite 100\<rparr>),
             transactionHistory := (transactionHistory s)
               (wId \<mapsto> h @ [\<lparr>idT = uuid1 env, walletId = wId, action = FUND, amount = a,
                             timestamp = date1 env, counterpartyWalletId = None,
                             transferGroupId = None\<rparr>])\<rparr>))"
  by (simp add: fundWallet_def Let_def)

lemma transferFunds_self:
  "checkIdempotency key s = None \<Longrightarrow>
     transferFunds env x x a key s =
       (Inl (HttpException ConflictException ''Cannot transfer funds to the same wallet.''), s)"
  by (simp add: transferFunds_def)

lemma transferFunds_no_sender:
  "checkIdempotency key s = None \<Longrightarrow> sId \<noteq> rId \<Longrightarrow> wallets s sId = None \<Longrightarrow>
     transferFunds env sId rId a key s =
       (Inl (HttpException NotFoundException ''Sender wallet not found.''), s)"
  by (simp add: transferFunds_def)

lemma transferFunds_no_receiver:
  "checkIdempotency key s = None \<Longrightarrow> sId \<noteq> rId \<Longrightarrow> wallets s sId = Some sw \<Longrightarrow>
   wallets s rId = None \<Longrightarrow>
     transferFunds env sId rId a key s =
       (Inl (HttpException NotFoundException ''Receiver wallet not found.''), s)"
  by (simp add: transferFunds_def)

lemma transferFunds_currency:
  "checkIdempotency key s = None \<Longrightarrow> sId \<noteq> rId \<Longrightarrow> wallets s sId = Some sw \<Longrightarrow>
   wallets s rId = Some rw \<Longrightarrow> currency sw \<noteq> currency rw \<Longrightarrow>
     transferFunds env sId rId a key s =
       (Inl (HttpException BadRequestException
               ''Transfer between different currencies is not supported.''), s)"
  by (simp add: transferFunds_def)

lemma transferFunds_insufficient:
  "checkIdempotency key s = None \<Longrightarrow> sId \<noteq> rId \<Longrightarrow> wallets s sId = Some sw \<Longrightarrow>
   wallets s rId = Some rw \<Longrightarrow> currency sw = currency rw \<Longrightarrow> balance sw / Finite 100 < a \<Longrightarrow>
     transferFunds env sId rId a key s =
       (Inl (HttpException BadRequestException ''Insufficient balance in sender wallet.''), s)"
  by (simp add: transferFunds_def)

lemma transferFunds_no_sender_history:
  "checkIdempotency key s = None \<Longrightarrow> sId \<noteq> rId \<Longrightarrow> wallets s sId = Some sw \<Longrightarrow>
   wallets s rId = Some rw \<Longrightarrow> currency sw = currency rw \<Longrightarrow> \<not> balance sw / Finite 100 < a \<Longrightarrow>
   transactionHistory s sId = None \<Longrightarrow>
     transferFunds env sId rId a key s =
       (Inl TypeError,
        s\<lparr>wallets := (wallets s)(sId \<mapsto> sw\<lparr>balance := balance sw - a * Finite 100\<rparr>,
                                  rId \<mapsto> rw\<lparr>balance := balance rw + a * Finite 100\<rparr>)\<rparr>)"
  by (simp add: transferFunds_def Let_def)

lemma transferFunds_no_receiver_history:
  "checkIdempotency key s = None \<Longrightarrow> sId \<noteq> rId \<Longrightarrow> wallets s sId = Some sw \<Longrightarrow>
   wallets s rId = Some rw \<Longrightarrow> currency sw = currency rw \<Longrightarrow> \<not> balance sw / Finite 100 < a \<Longrightarrow>
   transactionHistory s sId = Some hs \<Longrightarrow> transactionHistory s rId = None \<Longrightarrow>
     transferFunds env sId rId a key s =
       (Inl TypeError,
        s\<lparr>wallets := (wallets s)(sId \<mapsto> sw\<lparr>balance := balance sw - a * Finite 100\<rparr>,
                                  rId \<mapsto> rw\<lparr>balance := balance rw + a * Finite 100\<rparr>),
          transactionHistory := (transactionHistory s)
             (sId \<mapsto> hs @ [\<lparr>idT = uuid2 env, walletId = sId, action = TRANSFER_OUT,
                             amount = a, timestamp = date1 env,
                             counterpartyWalletId = Some rId,
                             transferGroupId = Some (uuid1 env)\<rparr>])\<rparr>)"
  by (simp add: transferFunds_def Let_def)

lemma transferFunds_success:
  "checkIdempotency key s = None \<Longrightarrow> sId \<noteq> rId \<Longrightarrow> wallets s sId = Some sw \<Longrightarrow>
   wallets s rId = Some rw \<Longrightarrow> currency sw = currency rw \<Longrightarrow> \<not> balance sw / Finite 100 < a \<Longrightarrow>
   transactionHistory s sId = Some hs \<Longrightarrow> transactionHistory s rId = Some hr \<Longrightarrow>
     transferFunds env sId rId a key s =
       (Inr (TransferResult ''Transaction successful''
               (sw\<lparr>balance := (balance sw - a * Finite 100) / Finite 100\<rparr>)
               (rw\<lparr>balance := (balance rw + a * Finite 100) / Finite 100\<rparr>)),
        storeIdempotencyResult key
          (TransferResult ''Transaction successful''
               (sw\<lparr>balance := (balance sw - a * Finite 100) / Finite 100\<rparr>)
               (rw\<lparr>balance := (balance rw + a * Finite 100) / Finite 100\<rparr>))
          (s\<lparr>wallets := (wallets s)(sId \<mapsto> sw\<lparr>balance := balance sw - a * Finite 100\<rparr>,
                                  rId \<mapsto> rw\<lparr>balance := balance rw + a * Finite 100\<rparr>),
             transactionHistory := (transactionHistory s)
               (sId \<mapsto> hs @ [\<lparr>idT = uuid2 env, walletId = sId, action = TRANSFER_OUT,
                             amount = a, timestamp = date1 env,
                             counterpartyWalletId = Some rId,
                             transferGroupId = Some (uuid1 env)\<rparr>],
                rId \<mapsto> hr @ [\<lparr>idT = uuid3 env, walletId = rId, action = TRANSFER_IN,
                             amount = a, timestamp = date2 env,
                             counterpartyWalletId = Some sId,
                             transferGroupId = Some (uuid1 env)\<rparr>])\<rparr>))"
  by (simp add: transferFunds_def Let_def)

text \<open>The same branches as one case distinction.\<close>

lemma transferFunds_cases [case_names hit http typeError success]:
  obtains
    (hit) p where "checkIdempotency key s = Some p"
      and "transferFunds env sId rId a key s = (Inr p, s)"
  | (http) c m where "checkIdempotency key s = None"
      and "transferFunds env sId rId a key s = (Inl (HttpException c m), s)"
  | (typeError) sw rw s' where "checkIdempotency key s = None" and "sId \<noteq> rId"
      and "wallets s sId = Some sw" and "wallets s rId = Some rw"
      and "\<not> balance sw / Finite 100 < a"
      and "transactionHistory s sId = None \<or> transactionHistory s rId = None"
      and "transferFunds env sId rId a key s = (Inl TypeError, s')"
      and "wallets s' = (wallets s)(sId \<mapsto> sw\<lparr>balance := balance sw - a * Finite 100\<rparr>,
                                    rId \<mapsto> rw\<lparr>balance := balance rw + a * Finite 100\<rparr>)"
      and "idempotentStore s' = idempotentStore s"
  | (success) sw rw hs hr where "checkIdempotency key s = None" and "sId \<noteq> rId"
      and "wallets s sId = Some sw" and "wallets s rId = Some rw"
      and "currency sw = currency rw" and "\<not> balance sw / Finite 100 < a"
      and "transactionHistory s sId = Some hs" and "transactionHistory s rId = Some hr"
proof (cases "checkIdempotency key s")
  case (Some p)
  then show ?thesis using hit by (simp add: transferFunds_hit)
next
  case miss: None
  show ?thesis
  proof (cases "sId = rId")
    case True
    with miss show ?thesis using http by (simp add: transferFunds_self)
  next
    case ne: False
    show ?thesis
    proof (cases "wallets s sId")
      case None
      with miss ne show ?thesis using http by (simp add: transferFunds_no_sender)
    next
      case sw: (Some sw)
      show ?thesis
      proof (cases "wallets s rId")
        case None
        with miss ne sw show ?thesis using http by (simp add: transferFunds_no_receiver)
      next
        case rw: (Some rw)
        show ?thesis
        proof (cases "currency sw = currency rw")
          case False
          with miss ne sw rw show ?thesis using http by (simp add: transferFunds_currency)
        next
          case cur: True
          show ?thesis
          proof (cases "balance sw / Finite 100 < a")
            case True
            with miss ne sw rw cur show ?thesis
              using http by (simp add: transferFunds_insufficient)
          next
            case enough: False
            show ?thesis
            proof (cases "transactionHistory s sId")
              case None
              with miss ne sw rw cur enough show ?thesis
                using typeError [of sw rw] by (simp add: transferFunds_no_sender_history)
            next
              case hs: (Some hs)
              show ?thesis
              proof (cases "transactionHistory s rId")
                case None
                with miss ne sw rw cur enough hs show ?thesis
                  using typeError [of sw rw]
                  by (simp add: transferFunds_no_receiver_history)
              next
                case (Some hr)
                with miss ne sw rw cur enough hs show ?thesis using success by simp
              qed
            qed
          qed
        qed
      qed
    qed
  qed
qed

lemma fundWallet_cases [case_names hit http typeError success]:
  obtains
    (hit) p where "checkIdempotency key s = Some p"
      and "fundWallet env wId a key s = (Inr p, s)"
  | (http) c m where "checkIdempotency key s = None"
      and "fundWallet env wId a key s = (Inl (HttpException c m), s)"
  | (typeError) w where "checkIdempotency key s = None" and "wallets s wId = Some w"
      and "transactionHistory s wId = None"
  | (success) w h where "checkIdempotency key s = None" and "wallets s wId = Some w"
      and "transactionHistory s wId = Some h"
proof (cases "checkIdempotency key s")
  case (Some p)
  then show ?thesis using hit by (simp add: fundWallet_hit)
next
  case miss: None
  show ?thesis
  proof (cases "wallets s wId")
    case None
    with miss show ?thesis using http by (simp add: fundWallet_not_found)
  next
    case w: (Some w)
    with miss show ?thesis
      using typeError success by (cases "transactionHistory s wId") simp_all
  qed
qed

subsection \<open>An exception of the service leaves the state alone\<close>

lemma fundWallet_http_unchanged:
  assumes "fst (fundWallet env wId a key s) = Inl (HttpException c m)"
  shows "snd (fundWallet env wId a key s) = s"
  using assms
  by (cases rule: fundWallet_cases [of key s env wId a])
     (simp_all add: fundWallet_no_history fundWallet_success)

lemma transferFunds_http_unchanged:
  assumes "fst (transferFunds env sId rId a key s) = Inl (HttpException c m)"
  shows "snd (transferFunds env sId rId a key s) = s"
  using assms
  by (cases rule: transferFunds_cases [of key s env sId rId a])
     (simp_all add: transferFunds_success)

lemma reachable_fund_no_TypeError:
  assumes "reachable s"
  shows "fst (fundWallet env wId a key s) \<noteq> Inl TypeError"
proof (cases rule: fundWallet_cases [of key s env wId a])
  case (typeError w)
  with reachable_has_history [OF assms, of wId w] show ?thesis by simp
qed (simp_all add: fundWallet_success)

lemma reachable_transfer_no_TypeError:
  assumes "reachable s"
  shows "fst (transferFunds env sId rId a key s) \<noteq> Inl TypeError"
proof (cases rule: transferFunds_cases [of key s env sId rId a])
  case (typeError sw rw s')
  with reachable_has_history [OF assms, of sId sw] reachable_has_history [OF assms, of rId rw]
  show ?thesis by auto
qed (simp_all add: transferFunds_success)

subsection \<open>Evaluating the arithmetic\<close>

lemma floor_numeral_div [simp]:
  "\<lfloor>numeral a / numeral b :: rat\<rfloor> = numeral a div numeral b"
  using floor_divide_of_int_eq [of "numeral a" "numeral b", where ?'a = rat] by simp

lemma ceiling_numeral_div [simp]:
  "\<lceil>numeral a / numeral b :: rat\<rceil> = - ((- numeral a) div numeral b)"
  using ceiling_divide_eq_div [of "numeral a" "numeral b", where ?'a = rat] by simp

lemmas round64_eval = round64_def roundAt_def ilog2_def roundHalfEven_def pow2_def Let_def
  bitLength.simps

lemma times_Finite: "a \<noteq> 0 \<Longrightarrow> b \<noteq> 0 \<Longrightarrow> Finite a * Finite b = round64 (a * b)"
  by (simp add: times_number_def isNaN_def isInf_def isZero_def)

lemma plus_Finite: "a + b \<noteq> 0 \<Longrightarrow> Finite a + Finite b = round64 (a + b)"
  by (simp add: plus_number_def isNaN_def isInf_def)

lemma minus_Finite: "b \<noteq> 0 \<Longrightarrow> a - b \<noteq> 0 \<Longrightarrow> Finite a - Finite b = round64 (a - b)"
  by (simp add: minus_number_def plus_number_def isNaN_def isInf_def)

lemma minus_Finite_self: "b \<noteq> 0 \<Longrightarrow> Finite b - Finite b = Finite 0"
  by (simp add: minus_number_def plus_number_def isNaN_def isInf_def)

lemma divide_Finite: "a \<noteq> 0 \<Longrightarrow> b \<noteq> 0 \<Longrightarrow> Finite a / Finite b = round64 (a / b)"
  by (simp add: divide_number_def isNaN_def isInf_def isZero_def)

lemma zero_divide_Finite: "0 < b \<Longrightarrow> Finite 0 / Finite b = Finite 0"
  by (simp add: divide_number_def isNaN_def isInf_def isZero_def signedZero_def)

lemma less_Finite: "Finite a < Finite b \<longleftrightarrow> a < b"
  by (simp add: less_number_def isNaN_def)

lemma less_eq_Finite: "Finite a \<le> Finite b \<longleftrightarrow> a \<le> b"
  by (simp add: less_eq_number_def isNaN_def)

lemmas ops_Finite = times_Finite plus_Finite minus_Finite minus_Finite_self divide_Finite
  zero_divide_Finite less_Finite less_eq_Finite

text \<open>The number literals 0.1, 0.03, 0.07, 0.01 and 2.43.\<close>

lemma literals:
  "round64 (1 / 10) = Finite (3602879701896397 / 36028797018963968)"
  "round64 (3 / 100) = Finite (1080863910568919 / 36028797018963968)"
  "round64 (7 / 100) = Finite (1261007895663739 / 18014398509481984)"
  "round64 (1 / 100) = Finite (5764607523034235 / 576460752303423488)"
  "round64 (243 / 100) = Finite (5471873547255153 / 2251799813685248)"
  by (simp_all add: round64_eval)

lemma validAmount_literals:
  "validAmount (round64 (1 / 10))" "validAmount (round64 (3 / 100))"
  "validAmount (round64 (7 / 100))" "validAmount (round64 (1 / 100))"
  "validAmount (round64 (243 / 100))"
  by (simp_all add: literals validAmount_def) (simp_all add: round64_eval)

lemma validAmount_integers:
  "validAmount (Finite 1000)" "validAmount (Finite 500)" "validAmount (Finite 100)"
  "validAmount (Finite (1 / 8))"
  by (simp_all add: validAmount_def round64_eval)

subsection \<open>The concrete runs, evaluated\<close>

lemma threeWallets_eq:
  "threeWallets =
     \<lparr>wallets = [''A'' \<mapsto> \<lparr>idW = ''A'', currency = USD, balance = Finite 0\<rparr>,
                 ''B'' \<mapsto> \<lparr>idW = ''B'', currency = USD, balance = Finite 0\<rparr>,
                 ''C'' \<mapsto> \<lparr>idW = ''C'', currency = NGN, balance = Finite 0\<rparr>],
      transactionHistory = [''A'' \<mapsto> [], ''B'' \<mapsto> [], ''C'' \<mapsto> []],
      idempotentStore = Map.empty\<rparr>"
  by (simp add: threeWallets_def createWallet_def initial_def envOf_def Let_def)

lemma fundedA_eq:
  "fundedA =
     \<lparr>wallets = [''A'' \<mapsto> \<lparr>idW = ''A'', currency = USD, balance = Finite 100000\<rparr>,
                 ''B'' \<mapsto> \<lparr>idW = ''B'', currency = USD, balance = Finite 0\<rparr>,
                 ''C'' \<mapsto> \<lparr>idW = ''C'', currency = NGN, balance = Finite 0\<rparr>],
      transactionHistory =
        [''A'' \<mapsto> [\<lparr>idT = ''f1'', walletId = ''A'', action = FUND, amount = Finite 1000,
                     timestamp = 1, counterpartyWalletId = None, transferGroupId = None\<rparr>],
         ''B'' \<mapsto> [], ''C'' \<mapsto> []],
      idempotentStore = Map.empty\<rparr>"
  apply (simp add: fundedA_def threeWallets_eq fundWallet_def checkIdempotency_def
                   storeIdempotencyResult_def envOf_def Let_def)
  apply (simp add: ops_Finite round64_eval)
  apply (auto simp: fun_eq_iff)
  done

lemma reachable_threeWallets: "reachable threeWallets"
  unfolding threeWallets_def by (intro reachable.intros)

lemma reachable_fundedA: "reachable fundedA"
  unfolding fundedA_def
  by (intro reachable.intros reachable_threeWallets validAmount_integers)

lemma transferred_eq:
  "transferred =
     \<lparr>wallets = [''A'' \<mapsto> \<lparr>idW = ''A'', currency = USD, balance = Finite 50000\<rparr>,
                 ''B'' \<mapsto> \<lparr>idW = ''B'', currency = USD, balance = Finite 50000\<rparr>,
                 ''C'' \<mapsto> \<lparr>idW = ''C'', currency = NGN, balance = Finite 0\<rparr>],
      transactionHistory =
        [''A'' \<mapsto> [\<lparr>idT = ''f1'', walletId = ''A'', action = FUND, amount = Finite 1000,
                     timestamp = 1, counterpartyWalletId = None, transferGroupId = None\<rparr>,
                    \<lparr>idT = ''g1-out'', walletId = ''A'', action = TRANSFER_OUT,
                     amount = Finite 500, timestamp = 1, counterpartyWalletId = Some ''B'',
                     transferGroupId = Some ''g1''\<rparr>],
         ''B'' \<mapsto> [\<lparr>idT = ''g1-in'', walletId = ''B'', action = TRANSFER_IN,
                     amount = Finite 500, timestamp = 2, counterpartyWalletId = Some ''A'',
                     transferGroupId = Some ''g1''\<rparr>],
         ''C'' \<mapsto> []],
      idempotentStore =
        [''k1'' \<mapsto> \<lparr>body = TransferResult ''Transaction successful''
                               \<lparr>idW = ''A'', currency = USD, balance = Finite 500\<rparr>
                               \<lparr>idW = ''B'', currency = USD, balance = Finite 500\<rparr>\<rparr>]\<rparr>"
  apply (simp add: transferred_def fundedA_eq transferFunds_def checkIdempotency_def
                   storeIdempotencyResult_def envOf_def Let_def ops_Finite round64_eval)
  apply (auto simp: fun_eq_iff)
  done

lemma reachable_transferred: "reachable transferred"
  unfolding transferred_def
  by (intro reachable.intros reachable_fundedA validAmount_integers)

text \<open>The run with two-decimal amounts: 10 cents, then 7 and 3, then the third call.\<close>

lemma fundedTenCents_eq:
  "fundedTenCents =
     \<lparr>wallets = [''A'' \<mapsto> \<lparr>idW = ''A'', currency = USD, balance = Finite 10\<rparr>,
                 ''B'' \<mapsto> \<lparr>idW = ''B'', currency = USD, balance = Finite 0\<rparr>,
                 ''C'' \<mapsto> \<lparr>idW = ''C'', currency = NGN, balance = Finite 0\<rparr>],
      transactionHistory =
        [''A'' \<mapsto> [\<lparr>idT = ''f1'', walletId = ''A'', action = FUND,
                     amount = Finite (3602879701896397 / 36028797018963968),
                     timestamp = 1, counterpartyWalletId = None, transferGroupId = None\<rparr>],
         ''B'' \<mapsto> [], ''C'' \<mapsto> []],
      idempotentStore = Map.empty\<rparr>"
  apply (simp add: fundedTenCents_def threeWallets_eq fundWallet_def checkIdempotency_def
                   storeIdempotencyResult_def envOf_def Let_def literals)
  apply (simp add: ops_Finite round64_eval)
  apply (auto simp: fun_eq_iff)
  done

lemma leftSevenCents_eq:
  "leftSevenCents =
     \<lparr>wallets = [''A'' \<mapsto> \<lparr>idW = ''A'', currency = USD, balance = Finite 7\<rparr>,
                 ''B'' \<mapsto> \<lparr>idW = ''B'', currency = USD, balance = Finite 3\<rparr>,
                 ''C'' \<mapsto> \<lparr>idW = ''C'', currency = NGN, balance = Finite 0\<rparr>],
      transactionHistory =
        [''A'' \<mapsto> [\<lparr>idT = ''f1'', walletId = ''A'', action = FUND,
                     amount = Finite (3602879701896397 / 36028797018963968),
                     timestamp = 1, counterpartyWalletId = None, transferGroupId = None\<rparr>,
                    \<lparr>idT = ''g1-out'', walletId = ''A'', action = TRANSFER_OUT,
                     amount = Finite (1080863910568919 / 36028797018963968),
                     timestamp = 1, counterpartyWalletId = Some ''B'',
                     transferGroupId = Some ''g1''\<rparr>],
         ''B'' \<mapsto> [\<lparr>idT = ''g1-in'', walletId = ''B'', action = TRANSFER_IN,
                     amount = Finite (1080863910568919 / 36028797018963968),
                     timestamp = 2, counterpartyWalletId = Some ''A'',
                     transferGroupId = Some ''g1''\<rparr>],
         ''C'' \<mapsto> []],
      idempotentStore = Map.empty\<rparr>"
  apply (simp add: leftSevenCents_def fundedTenCents_eq transferFunds_def checkIdempotency_def
                   storeIdempotencyResult_def envOf_def Let_def literals ops_Finite
                   round64_eval)
  apply (auto simp: fun_eq_iff)
  done

lemma transfer_seven_cents:
  "transferFunds (envOf ''g2'') ''A'' ''B'' (round64 (7 / 100)) None leftSevenCents =
     (Inr (TransferResult ''Transaction successful''
             \<lparr>idW = ''A'', currency = USD,
              balance = Finite (- (5764607523034235 / 649037107316853453566312041152512))\<rparr>
             \<lparr>idW = ''B'', currency = USD,
              balance = Finite (3602879701896397 / 36028797018963968)\<rparr>),
      overdrawn)"
  by (simp add: overdrawn_def prod_eq_iff)
     (simp add: leftSevenCents_eq transferFunds_def checkIdempotency_def
                storeIdempotencyResult_def envOf_def Let_def literals ops_Finite
                round64_eval)

lemma wallets_overdrawn:
  "wallets overdrawn ''A'' =
     Some \<lparr>idW = ''A'', currency = USD, balance = Finite (- (1 / 1125899906842624))\<rparr>"
  "wallets overdrawn ''B'' = Some \<lparr>idW = ''B'', currency = USD, balance = Finite 10\<rparr>"
  by (simp_all add: overdrawn_def leftSevenCents_eq transferFunds_def checkIdempotency_def
                storeIdempotencyResult_def envOf_def Let_def literals ops_Finite
                round64_eval)

lemma reachable_leftSevenCents: "reachable leftSevenCents"
  unfolding leftSevenCents_def fundedTenCents_def
  by (intro reachable.intros reachable_threeWallets validAmount_literals)

lemma reachable_overdrawn: "reachable overdrawn"
  unfolding overdrawn_def
  by (intro reachable.intros reachable_leftSevenCents validAmount_literals)

lemma fundedOneCent_eq:
  "fundedOneCent =
     \<lparr>wallets = [''A'' \<mapsto> \<lparr>idW = ''A'', currency = USD, balance = Finite 1\<rparr>,
                 ''B'' \<mapsto> \<lparr>idW = ''B'', currency = USD, balance = Finite 0\<rparr>,
                 ''C'' \<mapsto> \<lparr>idW = ''C'', currency = NGN, balance = Finite 0\<rparr>],
      transactionHistory =
        [''A'' \<mapsto> [\<lparr>idT = ''f1'', walletId = ''A'', action = FUND,
                     amount = Finite (5764607523034235 / 576460752303423488),
                     timestamp = 1, counterpartyWalletId = None, transferGroupId = None\<rparr>],
         ''B'' \<mapsto> [], ''C'' \<mapsto> []],
      idempotentStore = Map.empty\<rparr>"
  apply (simp add: fundedOneCent_def threeWallets_eq fundWallet_def checkIdempotency_def
                   storeIdempotencyResult_def envOf_def Let_def literals)
  apply (simp add: ops_Finite round64_eval)
  apply (auto simp: fun_eq_iff)
  done

lemma reachable_fundedOneCent: "reachable fundedOneCent"
  unfolding fundedOneCent_def
  by (intro reachable.intros reachable_threeWallets validAmount_literals)

subsection \<open>Replayed calls on the concrete runs\<close>

lemma fund_k1:
  "fst (fundWallet (envOf ''f2'') ''A'' (Finite 100) (Some ''k1'') fundedA) =
     Inr (FundResult ''Transaction successful'' \<lparr>idW = ''A'', currency = USD, balance = Finite 1100\<rparr>)"
  by (simp add: fundedA_eq fundWallet_def checkIdempotency_def
                   storeIdempotencyResult_def envOf_def Let_def ops_Finite round64_eval)

lemma transfer_k1:
  "fst (transferFunds (envOf ''f2'') ''A'' ''B'' (Finite 100) (Some ''k1'') fundedA) =
     Inr (TransferResult ''Transaction successful''
            \<lparr>idW = ''A'', currency = USD, balance = Finite 900\<rparr>
            \<lparr>idW = ''B'', currency = USD, balance = Finite 100\<rparr>)"
  by (simp add: fundedA_eq transferFunds_def checkIdempotency_def
                   storeIdempotencyResult_def envOf_def Let_def ops_Finite round64_eval)

subsection \<open>Amounts with more than two decimals\<close>

lemma not_isInteger_half: "odd k \<Longrightarrow> \<not> isInteger (Finite (of_int k / 2))"
proof
  assume "odd k" and "isInteger (Finite (of_int k / 2))"
  then have "rat_of_int (2 * \<lfloor>rat_of_int k / 2\<rfloor>) = rat_of_int k"
    by (simp add: isInteger_def)
  then have "2 * \<lfloor>rat_of_int k / 2\<rfloor> = k"
    by (simp only: of_int_eq_iff)
  with \<open>odd k\<close> show False
    by (metis dvd_triv_left)
qed

subsection \<open>Errors and the state\<close>

text \<open>
  When \<^verbatim>\<open>fundWallet\<close> or \<^verbatim>\<open>transferFunds\<close> throws one of its exceptions, the state is the
  one before the call, and in a reachable state they throw nothing else. A transfer
  that passes the earlier checks, with the quotient \<^verbatim>\<open>senderWallet.balance / 100\<close> below
  the amount, throws the insufficient-balance exception.
\<close>

lemma errors_leave_state:
  "(fst (fundWallet env wId a key s) = Inl (HttpException c m) \<longrightarrow>
      snd (fundWallet env wId a key s) = s)
   \<and> (fst (transferFunds env sId rId b key s) = Inl (HttpException c' m') \<longrightarrow>
      snd (transferFunds env sId rId b key s) = s)
   \<and> (reachable s \<longrightarrow>
        fst (fundWallet env wId a key s) \<noteq> Inl TypeError
      \<and> fst (transferFunds env sId rId b key s) \<noteq> Inl TypeError)
   \<and> (checkIdempotency key s = None \<and> sId \<noteq> rId
        \<and> wallets s sId = Some sw \<and> wallets s rId = Some rw
        \<and> currency sw = currency rw \<and> balance sw / Finite 100 < b \<longrightarrow>
      transferFunds env sId rId b key s =
        (Inl (HttpException BadRequestException ''Insufficient balance in sender wallet.''), s))"
  by (simp add: fundWallet_http_unchanged transferFunds_http_unchanged
                transferFunds_insufficient reachable_fund_no_TypeError
                reachable_transfer_no_TypeError)

section \<open>The claims\<close>

text \<open>
  C1. The claim fails on this run: \<open>A\<close> holds 7 cents and \<open>B\<close> 3 cents, and 0.07 is moved
  from \<open>A\<close> to \<open>B\<close>. The gate does not hit, both wallets exist in USD, and the sender's
  balance in major units, \<^verbatim>\<open>7 / 100\<close>, is the number 0.07, not below the amount. The call
  succeeds, but \<^verbatim>\<open>0.07 * 100\<close> is 7.000000000000001, so the sender is left with
  \<open>- 2 ^ (- 50)\<close> cents: its balance in major units is about \<open>- 8.9e-18\<close>, where the prior
  balance minus the amount is 0, and the two stored balances no longer sum to 10.
\<close>

theorem C1_rounded_transfer:
  "reachable leftSevenCents
   \<and> checkIdempotency None leftSevenCents = None \<and> ''A'' \<noteq> ''B''
   \<and> wallets leftSevenCents ''A'' = Some \<lparr>idW = ''A'', currency = USD, balance = Finite 7\<rparr>
   \<and> wallets leftSevenCents ''B'' = Some \<lparr>idW = ''B'', currency = USD, balance = Finite 3\<rparr>
   \<and> validAmount (round64 (7 / 100))
   \<and> round64 (7 / 100) \<le> Finite 7 / Finite 100
   \<and> transferFunds (envOf ''g2'') ''A'' ''B'' (round64 (7 / 100)) None leftSevenCents =
       (Inr (TransferResult ''Transaction successful''
               \<lparr>idW = ''A'', currency = USD,
                balance = Finite (- (5764607523034235 / 649037107316853453566312041152512))\<rparr>
               \<lparr>idW = ''B'', currency = USD,
                balance = Finite (3602879701896397 / 36028797018963968)\<rparr>),
        overdrawn)
   \<and> wallets overdrawn ''A'' =
       Some \<lparr>idW = ''A'', currency = USD, balance = Finite (- (1 / 1125899906842624))\<rparr>
   \<and> wallets overdrawn ''B'' = Some \<lparr>idW = ''B'', currency = USD, balance = Finite 10\<rparr>
   \<and> Finite 7 / Finite 100 - round64 (7 / 100) = Finite 0
   \<and> Finite (- (1 / 1125899906842624)) / Finite 100 =
       Finite (- (5764607523034235 / 649037107316853453566312041152512))
   \<and> - (1 / 1125899906842624) + 10 \<noteq> (7 + 3 :: rat)"
  by (simp add: reachable_leftSevenCents transfer_seven_cents wallets_overdrawn
                validAmount_literals)
     (simp add: leftSevenCents_eq checkIdempotency_def literals ops_Finite round64_eval)

text \<open>
  C2, as stated, fails for the empty string as token: it is falsy, so the gate never
  looks it up and the result is never stored; a second call with the same arguments
  funds the wallet again and returns another payload.
\<close>

theorem C2_empty_token_counterexample:
  "fundWallet (envOf ''f2'') ''A'' (Finite 100) (Some '''') threeWallets =
     (Inr (FundResult ''Transaction successful'' \<lparr>idW = ''A'', currency = USD, balance = Finite 100\<rparr>),
      snd (fundWallet (envOf ''f2'') ''A'' (Finite 100) (Some '''') threeWallets))
   \<and> fst (fundWallet (envOf ''f2'') ''A'' (Finite 100) (Some '''')
            (snd (fundWallet (envOf ''f2'') ''A'' (Finite 100) (Some '''') threeWallets))) =
       Inr (FundResult ''Transaction successful'' \<lparr>idW = ''A'', currency = USD, balance = Finite 200\<rparr>)
   \<and> map_option balance (wallets (snd (fundWallet (envOf ''f2'') ''A'' (Finite 100) (Some '''') threeWallets)) ''A'')
       = Some (Finite 10000)
   \<and> map_option balance (wallets (snd (fundWallet (envOf ''f2'') ''A'' (Finite 100) (Some '''')
            (snd (fundWallet (envOf ''f2'') ''A'' (Finite 100) (Some '''') threeWallets)))) ''A'')
       = Some (Finite 20000)"
  by (simp add: threeWallets_eq fundWallet_def checkIdempotency_def
                   storeIdempotencyResult_def envOf_def Let_def ops_Finite round64_eval)

text \<open>
  C2 (amended). A call of \<^verbatim>\<open>fundWallet\<close> or \<^verbatim>\<open>transferFunds\<close> that succeeds bearing a
  non-empty token leaves a state in which a second call of the same method with the
  same arguments and token returns the first call's payload and leaves the whole state
  (wallets, histories and idempotency store) as the first call left it.
\<close>

theorem C2_replay_with_nonempty_token:
  assumes "k \<noteq> []"
  shows "(fst (fundWallet env wId a (Some k) s) = Inr p \<longrightarrow>
            fundWallet env' wId a (Some k) (snd (fundWallet env wId a (Some k) s)) =
              (Inr p, snd (fundWallet env wId a (Some k) s)))
       \<and> (fst (transferFunds env sId rId b (Some k) s) = Inr q \<longrightarrow>
            transferFunds env' sId rId b (Some k) (snd (transferFunds env sId rId b (Some k) s)) =
              (Inr q, snd (transferFunds env sId rId b (Some k) s)))"
  using assms
  by (simp add: fundWallet_success_cached fundWallet_hit
                transferFunds_success_cached transferFunds_hit)

theorem C2_witness:
  "''k1'' \<noteq> []
   \<and> fst (fundWallet (envOf ''f2'') ''A'' (Finite 100) (Some ''k1'') fundedA) =
       Inr (FundResult ''Transaction successful'' \<lparr>idW = ''A'', currency = USD, balance = Finite 1100\<rparr>)
   \<and> fundWallet (envOf ''f3'') ''A'' (Finite 100) (Some ''k1'')
         (snd (fundWallet (envOf ''f2'') ''A'' (Finite 100) (Some ''k1'') fundedA)) =
       (Inr (FundResult ''Transaction successful'' \<lparr>idW = ''A'', currency = USD, balance = Finite 1100\<rparr>),
        snd (fundWallet (envOf ''f2'') ''A'' (Finite 100) (Some ''k1'') fundedA))
   \<and> fst (transferFunds (envOf ''f2'') ''A'' ''B'' (Finite 100) (Some ''k1'') fundedA) =
       Inr (TransferResult ''Transaction successful''
            \<lparr>idW = ''A'', currency = USD, balance = Finite 900\<rparr>
            \<lparr>idW = ''B'', currency = USD, balance = Finite 100\<rparr>)
   \<and> transferFunds (envOf ''f3'') ''A'' ''B'' (Finite 100) (Some ''k1'')
         (snd (transferFunds (envOf ''f2'') ''A'' ''B'' (Finite 100) (Some ''k1'') fundedA)) =
       (Inr (TransferResult ''Transaction successful''
            \<lparr>idW = ''A'', currency = USD, balance = Finite 900\<rparr>
            \<lparr>idW = ''B'', currency = USD, balance = Finite 100\<rparr>),
        snd (transferFunds (envOf ''f2'') ''A'' ''B'' (Finite 100) (Some ''k1'') fundedA))"
  using C2_replay_with_nonempty_token [where k = "''k1''" and env = "envOf ''f2''"
      and env' = "envOf ''f3''" and wId = "''A''" and a = "Finite 100" and s = fundedA
      and sId = "''A''" and rId = "''B''" and b = "Finite 100"
      and p = "FundResult ''Transaction successful''
                 \<lparr>idW = ''A'', currency = USD, balance = Finite 1100\<rparr>"
      and q = "TransferResult ''Transaction successful''
                 \<lparr>idW = ''A'', currency = USD, balance = Finite 900\<rparr>
                 \<lparr>idW = ''B'', currency = USD, balance = Finite 100\<rparr>"]
    fund_k1 transfer_k1
  by simp


text \<open>
  C4. The claim fails on this run: after funding \<open>A\<close> with 0.1 and moving 0.03 and then
  0.07 from \<open>A\<close> to \<open>B\<close>, all of them amounts the DTOs accept, the balance of \<open>A\<close> is
  \<open>- 2 ^ (- 50)\<close> cents, below zero.
\<close>

theorem C4_negative_balance_reachable:
  "reachable overdrawn
   \<and> wallets overdrawn ''A'' =
       Some \<lparr>idW = ''A'', currency = USD, balance = Finite (- (1 / 1125899906842624))\<rparr>
   \<and> Finite (- (1 / 1125899906842624)) < Finite 0"
  by (simp add: reachable_overdrawn wallets_overdrawn ops_Finite)

text \<open>
  C5. The claim fails on this run: \<open>A\<close> holds 1 cent and is funded with 2.43. The call
  succeeds, but \<^verbatim>\<open>2.43 * 100\<close> is 243.00000000000003, the stored balance becomes
  244.00000000000003 and the balance in major units 2.4400000000000004, where the
  prior balance plus the amount, \<^verbatim>\<open>0.01 + 2.43\<close>, is 2.44.
\<close>

theorem C5_rounded_fund:
  "reachable fundedOneCent
   \<and> checkIdempotency None fundedOneCent = None
   \<and> wallets fundedOneCent ''A'' = Some \<lparr>idW = ''A'', currency = USD, balance = Finite 1\<rparr>
   \<and> validAmount (round64 (243 / 100))
   \<and> fst (fundWallet (envOf ''f2'') ''A'' (round64 (243 / 100)) None fundedOneCent) =
       Inr (FundResult ''Transaction successful''
              \<lparr>idW = ''A'', currency = USD,
               balance = Finite (2747195772696003 / 1125899906842624)\<rparr>)
   \<and> wallets (snd (fundWallet (envOf ''f2'') ''A'' (round64 (243 / 100)) None fundedOneCent))
         ''A'' =
       Some \<lparr>idW = ''A'', currency = USD,
             balance = Finite (8584986789675009 / 35184372088832)\<rparr>
   \<and> Finite 1 / Finite 100 + round64 (243 / 100) =
       Finite (5494391545392005 / 2251799813685248)
   \<and> Finite (8584986789675009 / 35184372088832) / Finite 100 =
       Finite (2747195772696003 / 1125899906842624)
   \<and> (2747195772696003 / 1125899906842624 :: rat) \<noteq> 5494391545392005 / 2251799813685248"
  by (simp add: reachable_fundedOneCent validAmount_literals)
     (simp add: fundedOneCent_eq fundWallet_def checkIdempotency_def
                storeIdempotencyResult_def Let_def literals ops_Finite round64_eval)

text \<open>
  C6, as stated, fails for a replayed call: a transfer that bears the token of an
  earlier call succeeds with the cached payload and appends no record.
\<close>

theorem C6_replayed_transfer_counterexample:
  "transferFunds (envOf ''g2'') ''A'' ''B'' (Finite 500) (Some ''k1'') transferred =
     (Inr (TransferResult ''Transaction successful''
             \<lparr>idW = ''A'', currency = USD, balance = Finite 500\<rparr>
             \<lparr>idW = ''B'', currency = USD, balance = Finite 500\<rparr>), transferred)
   \<and> map_option length (transactionHistory transferred ''A'') = Some 2
   \<and> map_option length (transactionHistory transferred ''B'') = Some 1"
  by (simp add: transferFunds_hit checkIdempotency_def transferred_eq)

text \<open>
  C6 (amended). Every successful call of \<^verbatim>\<open>transferFunds\<close> on which the idempotency
  gate does not hit appends exactly one \<open>TRANSFER_OUT\<close> record to the sender's history
  and exactly one \<open>TRANSFER_IN\<close> record to the receiver's history and changes no other
  history; both records carry the transfer-group identifier generated in this call,
  the \<open>TRANSFER_OUT\<close> record names the receiver as counterparty and the \<open>TRANSFER_IN\<close>
  record the sender.
\<close>

theorem C6_transfer_records:
  assumes "checkIdempotency key s = None"
    and "fst (transferFunds env sId rId a key s) = Inr p"
  shows "\<exists>hs hr.
           sId \<noteq> rId
         \<and> transactionHistory s sId = Some hs \<and> transactionHistory s rId = Some hr
         \<and> transactionHistory (snd (transferFunds env sId rId a key s)) =
             (transactionHistory s)
               (sId \<mapsto> hs @ [\<lparr>idT = uuid2 env, walletId = sId, action = TRANSFER_OUT,
                             amount = a, timestamp = date1 env,
                             counterpartyWalletId = Some rId,
                             transferGroupId = Some (uuid1 env)\<rparr>],
                rId \<mapsto> hr @ [\<lparr>idT = uuid3 env, walletId = rId, action = TRANSFER_IN,
                             amount = a, timestamp = date2 env,
                             counterpartyWalletId = Some sId,
                             transferGroupId = Some (uuid1 env)\<rparr>])"
  using assms
  by (cases rule: transferFunds_cases [of key s env sId rId a])
     (simp_all add: transferFunds_success)

theorem C6_witness:
  "checkIdempotency (Some ''k1'') fundedA = None
   \<and> fst (transferFunds (envOf ''g1'') ''A'' ''B'' (Finite 500) (Some ''k1'') fundedA) =
       Inr (TransferResult ''Transaction successful''
             \<lparr>idW = ''A'', currency = USD, balance = Finite 500\<rparr>
             \<lparr>idW = ''B'', currency = USD, balance = Finite 500\<rparr>)
   \<and> (\<exists>hs hr. transactionHistory fundedA ''A'' = Some hs
         \<and> transactionHistory fundedA ''B'' = Some hr
         \<and> transactionHistory transferred =
             (transactionHistory fundedA)
               (''A'' \<mapsto> hs @ [\<lparr>idT = ''g1-out'', walletId = ''A'', action = TRANSFER_OUT,
                             amount = Finite 500, timestamp = 1,
                             counterpartyWalletId = Some ''B'',
                             transferGroupId = Some ''g1''\<rparr>],
                ''B'' \<mapsto> hr @ [\<lparr>idT = ''g1-in'', walletId = ''B'', action = TRANSFER_IN,
                             amount = Finite 500, timestamp = 2,
                             counterpartyWalletId = Some ''A'',
                             transferGroupId = Some ''g1''\<rparr>]))"
proof -
  have h: "checkIdempotency (Some ''k1'') fundedA = None"
    by (simp add: fundedA_eq checkIdempotency_def)
  have p: "fst (transferFunds (envOf ''g1'') ''A'' ''B'' (Finite 500) (Some ''k1'') fundedA) =
       Inr (TransferResult ''Transaction successful''
             \<lparr>idW = ''A'', currency = USD, balance = Finite 500\<rparr>
             \<lparr>idW = ''B'', currency = USD, balance = Finite 500\<rparr>)"
    by (simp add: fundedA_eq transferFunds_def checkIdempotency_def
                  storeIdempotencyResult_def Let_def ops_Finite round64_eval)
  from C6_transfer_records [OF h p] h p show ?thesis
    by (simp add: transferred_def envOf_def)
qed

text \<open>
  C7. A call of \<^verbatim>\<open>transferFunds\<close> with the sender equal to the receiver, on which the
  idempotency gate does not hit, throws \<^verbatim>\<open>ConflictException\<close>, whether or not a wallet
  with that identifier exists.
\<close>

theorem C7_self_transfer_conflict:
  assumes "checkIdempotency key s = None"
  shows "transferFunds env x x a key s =
           (Inl (HttpException ConflictException
                   ''Cannot transfer funds to the same wallet.''), s)"
  using assms by (simp add: transferFunds_def)

theorem C7_witness:
  "wallets fundedA ''Z'' = None \<and> checkIdempotency (Some ''k1'') fundedA = None
   \<and> transferFunds (envOf ''g1'') ''Z'' ''Z'' (Finite 5) (Some ''k1'') fundedA =
       (Inl (HttpException ConflictException
               ''Cannot transfer funds to the same wallet.''), fundedA)"
proof -
  have h: "checkIdempotency (Some ''k1'') fundedA = None"
    by (simp add: fundedA_eq checkIdempotency_def)
  from C7_self_transfer_conflict [OF h] h show ?thesis
    by (simp add: fundedA_eq)
qed

text \<open>
  C8. The amount \<open>1/8\<close> (0.125) is a positive number, so it passes \<^verbatim>\<open>@IsNumber\<close> and
  \<^verbatim>\<open>@IsPositive\<close>. Funding a wallet with it, or transferring it, multiplies it by 100
  and stores balances of 12.5 and 99987.5 minor units, which are not integers.
\<close>

theorem C8_fractional_minor_units:
  "validAmount (Finite (1 / 8))
   \<and> fst (fundWallet (envOf ''f2'') ''B'' (Finite (1 / 8)) None threeWallets) =
       Inr (FundResult ''Transaction successful''
              \<lparr>idW = ''B'', currency = USD, balance = Finite (1 / 8)\<rparr>)
   \<and> wallets (snd (fundWallet (envOf ''f2'') ''B'' (Finite (1 / 8)) None threeWallets)) ''B'' =
       Some \<lparr>idW = ''B'', currency = USD, balance = Finite (25 / 2)\<rparr>
   \<and> fst (transferFunds (envOf ''g2'') ''A'' ''B'' (Finite (1 / 8)) None fundedA) =
       Inr (TransferResult ''Transaction successful''
              \<lparr>idW = ''A'', currency = USD, balance = Finite (7999 / 8)\<rparr>
              \<lparr>idW = ''B'', currency = USD, balance = Finite (1 / 8)\<rparr>)
   \<and> wallets (snd (transferFunds (envOf ''g2'') ''A'' ''B'' (Finite (1 / 8)) None fundedA)) ''A'' =
       Some \<lparr>idW = ''A'', currency = USD, balance = Finite (199975 / 2)\<rparr>
   \<and> wallets (snd (transferFunds (envOf ''g2'') ''A'' ''B'' (Finite (1 / 8)) None fundedA)) ''B'' =
       Some \<lparr>idW = ''B'', currency = USD, balance = Finite (25 / 2)\<rparr>
   \<and> \<not> isInteger (Finite (25 / 2)) \<and> \<not> isInteger (Finite (199975 / 2))"
  using not_isInteger_half [of 25] not_isInteger_half [of 199975]
  by (simp add: threeWallets_eq fundedA_eq fundWallet_def transferFunds_def
                checkIdempotency_def storeIdempotencyResult_def Let_def
                validAmount_integers ops_Finite round64_eval)

text \<open>
  C9, as stated, fails: the currency mismatch and the insufficient balance throw the
  same exception class, \<^verbatim>\<open>BadRequestException\<close>.
\<close>

theorem C9_same_class_counterexample:
  "transferFunds (envOf ''g2'') ''A'' ''C'' (Finite 500) None fundedA =
     (Inl (HttpException BadRequestException
             ''Transfer between different currencies is not supported.''), fundedA)
   \<and> transferFunds (envOf ''g2'') ''A'' ''B'' (Finite 1001) None fundedA =
     (Inl (HttpException BadRequestException
             ''Insufficient balance in sender wallet.''), fundedA)"
  by (simp add: fundedA_eq transferFunds_def checkIdempotency_def ops_Finite round64_eval)

text \<open>
  C9 (amended). For a transfer on which the idempotency gate does not hit, between two
  different existing wallets, \<^verbatim>\<open>transferFunds\<close> throws \<^verbatim>\<open>BadRequestException\<close> both when
  the currencies differ and when they agree and the sender's balance in major units, as
  the code computes it (\<^verbatim>\<open>senderWallet.balance / 100\<close>), is below the amount; the state
  is left as it was. The two failures carry different messages, by which alone they
  can be told apart.
\<close>

theorem C9_business_rule_errors:
  assumes "checkIdempotency key s = None" and "sId \<noteq> rId"
    and "wallets s sId = Some sw" and "wallets s rId = Some rw"
  shows "(currency sw \<noteq> currency rw \<longrightarrow>
            transferFunds env sId rId a key s =
              (Inl (HttpException BadRequestException
                      ''Transfer between different currencies is not supported.''), s))
       \<and> (currency sw = currency rw \<and> balance sw / Finite 100 < a \<longrightarrow>
            transferFunds env sId rId a key s =
              (Inl (HttpException BadRequestException
                      ''Insufficient balance in sender wallet.''), s))
       \<and> ''Transfer between different currencies is not supported.'' \<noteq>
           ''Insufficient balance in sender wallet.''"
  using assms by (simp add: transferFunds_def)

theorem C9_witness:
  "checkIdempotency None fundedA = None \<and> ''A'' \<noteq> ''C'' \<and> ''A'' \<noteq> ''B''
   \<and> wallets fundedA ''A'' = Some \<lparr>idW = ''A'', currency = USD, balance = Finite 100000\<rparr>
   \<and> wallets fundedA ''B'' = Some \<lparr>idW = ''B'', currency = USD, balance = Finite 0\<rparr>
   \<and> wallets fundedA ''C'' = Some \<lparr>idW = ''C'', currency = NGN, balance = Finite 0\<rparr>
   \<and> Finite 100000 / Finite 100 < Finite 1001
   \<and> transferFunds (envOf ''g2'') ''A'' ''C'' (Finite 500) None fundedA =
       (Inl (HttpException BadRequestException
               ''Transfer between different currencies is not supported.''), fundedA)
   \<and> transferFunds (envOf ''g2'') ''A'' ''B'' (Finite 1001) None fundedA =
       (Inl (HttpException BadRequestException
               ''Insufficient balance in sender wallet.''), fundedA)"
proof -
  have h: "checkIdempotency None fundedA = None" and ac: "''A'' \<noteq> ''C''"
    and ab: "''A'' \<noteq> ''B''"
    and a: "wallets fundedA ''A'' = Some \<lparr>idW = ''A'', currency = USD, balance = Finite 100000\<rparr>"
    and b: "wallets fundedA ''B'' = Some \<lparr>idW = ''B'', currency = USD, balance = Finite 0\<rparr>"
    and c: "wallets fundedA ''C'' = Some \<lparr>idW = ''C'', currency = NGN, balance = Finite 0\<rparr>"
    by (simp_all add: fundedA_eq checkIdempotency_def)
  have l: "Finite 100000 / Finite 100 < Finite 1001"
    by (simp add: ops_Finite round64_eval)
  from C9_business_rule_errors [OF h ac a c, where env = "envOf ''g2''" and a = "Finite 500"]
       C9_business_rule_errors [OF h ab a b, where env = "envOf ''g2''" and a = "Finite 1001"] l
  have "transferFunds (envOf ''g2'') ''A'' ''C'' (Finite 500) None fundedA =
       (Inl (HttpException BadRequestException
               ''Transfer between different currencies is not supported.''), fundedA)"
    and "transferFunds (envOf ''g2'') ''A'' ''B'' (Finite 1001) None fundedA =
       (Inl (HttpException BadRequestException
               ''Insufficient balance in sender wallet.''), fundedA)"
    by simp_all
  with h ac ab a b c l show ?thesis by simp
qed

text \<open>
  C10. In a reachable state, a call of \<^verbatim>\<open>fundWallet\<close> or \<^verbatim>\<open>transferFunds\<close> bearing a token
  that is a key of the idempotency store returns the stored body and leaves the state
  as it was, whatever its other arguments and whichever method stored the entry: no
  wallet is looked up and nothing is validated.
\<close>

theorem C10_cache_keyed_by_token:
  assumes "reachable s" and "idempotentStore s k = Some r"
  shows "fundWallet env wId a (Some k) s = (Inr (body r), s)
       \<and> transferFunds env sId rId b (Some k) s = (Inr (body r), s)"
proof -
  from assms have "k \<noteq> []"
    using reachable_consistent [OF assms(1)] by (auto simp: consistent_def)
  with assms(2) have "checkIdempotency (Some k) s = Some (body r)"
    by (auto simp: checkIdempotency_def)
  then show ?thesis by (simp add: fundWallet_hit transferFunds_hit)
qed

theorem C10_witness:
  "reachable transferred
   \<and> idempotentStore transferred ''k1'' =
       Some \<lparr>body = TransferResult ''Transaction successful''
                      \<lparr>idW = ''A'', currency = USD, balance = Finite 500\<rparr>
                      \<lparr>idW = ''B'', currency = USD, balance = Finite 500\<rparr>\<rparr>
   \<and> wallets transferred ''Z'' = None
   \<and> fundWallet (envOf ''f3'') ''Z'' (Finite 7) (Some ''k1'') transferred =
       (Inr (TransferResult ''Transaction successful''
               \<lparr>idW = ''A'', currency = USD, balance = Finite 500\<rparr>
               \<lparr>idW = ''B'', currency = USD, balance = Finite 500\<rparr>), transferred)
   \<and> transferFunds (envOf ''f3'') ''Z'' ''Z'' (Finite 9) (Some ''k1'') transferred =
       (Inr (TransferResult ''Transaction successful''
               \<lparr>idW = ''A'', currency = USD, balance = Finite 500\<rparr>
               \<lparr>idW = ''B'', currency = USD, balance = Finite 500\<rparr>), transferred)"
proof -
  have k: "idempotentStore transferred ''k1'' =
       Some \<lparr>body = TransferResult ''Transaction successful''
                      \<lparr>idW = ''A'', currency = USD, balance = Finite 500\<rparr>
                      \<lparr>idW = ''B'', currency = USD, balance = Finite 500\<rparr>\<rparr>"
    and z: "wallets transferred ''Z'' = None"
    by (simp_all add: transferred_eq)
  from C10_cache_keyed_by_token [OF reachable_transferred k,
         of "envOf ''f3''" "''Z''" "Finite 7" "''Z''" "''Z''" "Finite 9"]
  show ?thesis using k z reachable_transferred by simp
qed

end
